theory Spec2Isabelle
  imports Main
begin

section \<open>Python values used by the assessment core\<close>

text \<open>
  The assessment core of \<^verbatim>\<open>main.py\<close> works on two party dictionaries. A party is
  modelled as a record with one optional field per key the core reads: \<open>None\<close> is
  an absent key, \<open>Some v\<close> a present key whose value has the type the data model gives
  it (strings, booleans, integers, and the nested \<^verbatim>\<open>ownership\<close> dictionary). Every
  read in the source is a \<^verbatim>\<open>dict.get\<close>, with or without a default, and is modelled
  by \<open>get_or\<close> or by the optional field itself. With fields of these types no
  operation of the core can raise, so the functions below return their result directly.
  The one value whose Python type is left open is the one under the key \<^verbatim>\<open>type\<close>,
  on which the controller calls a string method: the last section embeds the controller
  on dictionaries whose type value is any Python value, with the exception as a result.

  Strings are ASCII byte strings: \<open>upper\<close> is \<^verbatim>\<open>str.upper\<close> on them (the letters
  \<^verbatim>\<open>a\<close> to \<^verbatim>\<open>z\<close> become \<^verbatim>\<open>A\<close> to \<^verbatim>\<open>Z\<close>, every other character stays),
  and \<open>str_int\<close> is the decimal text of an integer, as the format string of the family
  basis produces it.
\<close>

definition get_or :: "'a option \<Rightarrow> 'a \<Rightarrow> 'a" where
  "get_or field dflt = (case field of None \<Rightarrow> dflt | Some v \<Rightarrow> v)"

definition upper_char :: "char \<Rightarrow> char" where
  "upper_char c =
     (let n = (of_char c :: nat)
      in if 97 \<le> n \<and> n \<le> 122 then char_of (n - 32) else c)"

definition upper :: "string \<Rightarrow> string" where
  "upper s = map upper_char s"

definition digit_char :: "nat \<Rightarrow> char" where
  "digit_char d = char_of (48 + d)"

fun str_nat :: "nat \<Rightarrow> string" where
  "str_nat n = (if n < 10 then [digit_char n] else str_nat (n div 10) @ [digit_char (n mod 10)])"

definition str_int :: "int \<Rightarrow> string" where
  "str_int i = (if i < 0 then CHR ''-'' # str_nat (nat (- i)) else str_nat (nat i))"

section \<open>Configuration constants\<close>

record documentation_thresholds =
  REVENUE :: int
  MNE_GROUP_CONSOLIDATED :: int

record config =
  OWNERSHIP_THRESHOLD :: int
  CONTROL_THRESHOLD :: int
  MAX_FAMILY_DEGREE :: int
  DOCUMENTATION_THRESHOLDS :: documentation_thresholds

definition CONFIG :: config where
  "CONFIG =
     \<lparr> OWNERSHIP_THRESHOLD = 50,
       CONTROL_THRESHOLD = 50,
       MAX_FAMILY_DEGREE = 4,
       DOCUMENTATION_THRESHOLDS = \<lparr> REVENUE = 200000000, MNE_GROUP_CONSOLIDATED = 3150000000 \<rparr> \<rparr>"

section \<open>Parties and results\<close>

record ownership_dict =
  direct :: "int option"
  indirect :: "int option"

record party =
  party_type :: "string option"
  crossBorder :: "bool option"
  highValueTransactions :: "bool option"
  layersOfOwnership :: "int option"
  companyType :: "string option"
  relationship_type :: "string option"
  isDirector :: "bool option"
  isOfficer :: "bool option"
  personalOwnership :: "int option"
  familyOwnership :: "int option"
  revenue :: "int option"
  groupConsolidatedRevenue :: "int option"
  ownership :: "ownership_dict option"
  votingRights :: "int option"
  profitEntitlement :: "int option"
  managementControl :: "int option"

text \<open>The empty dictionary \<^verbatim>\<open>{}\<close>, as a party and as an ownership dictionary.\<close>

definition empty_ownership :: ownership_dict where
  "empty_ownership = \<lparr> direct = None, indirect = None \<rparr>"

definition empty_party :: party where
  "empty_party =
     \<lparr> party_type = None, crossBorder = None, highValueTransactions = None,
       layersOfOwnership = None, companyType = None, relationship_type = None,
       isDirector = None, isOfficer = None, personalOwnership = None,
       familyOwnership = None, revenue = None, groupConsolidatedRevenue = None,
       ownership = None, votingRights = None, profitEntitlement = None,
       managementControl = None \<rparr>"

record risk_factors =
  complexityScore :: int
  factor_crossBorder :: bool
  factor_highValueTransactions :: bool

record risk_assessment =
  riskLevel :: string
  factors :: risk_factors

record documentation =
  masterFile :: bool
  localFile :: bool
  disclosureForm :: bool
  additionalDocs :: "string list"

text \<open>
  The result dictionary of the assessor. \<^verbatim>\<open>riskAssessment\<close> and
  \<^verbatim>\<open>documentationRequired\<close> start as the empty dictionary (\<open>None\<close>) and are
  assigned at the end of the call.
\<close>

record result =
  isRelatedParty :: bool
  isConnectedPerson :: bool
  basis :: "string list"
  specialCases :: "string list"
  riskAssessment :: "risk_assessment option"
  documentationRequired :: "documentation option"

section \<open>Family relationship analyzer\<close>

definition family_degrees :: "(int \<times> string list) list" where
  "family_degrees =
     [(1, [''parent'', ''child'', ''spouse_parent'', ''spouse_child'']),
      (2, [''grandparent'', ''grandchild'', ''sibling'', ''spouse_sibling'']),
      (3, [''great_grandparent'', ''great_grandchild'', ''uncle'', ''aunt'', ''niece'', ''nephew'']),
      (4, [''great_great_grandparent'', ''great_great_grandchild'', ''first_cousin''])]"

fun calculate_degree_loop :: "(int \<times> string list) list \<Rightarrow> string \<Rightarrow> int" where
  "calculate_degree_loop [] rt = 999"
| "calculate_degree_loop ((deg, relations) # rest) rt =
     (if rt \<in> set relations then deg else calculate_degree_loop rest rt)"

definition calculate_degree :: "string \<Rightarrow> int" where
  "calculate_degree rt = calculate_degree_loop family_degrees rt"

record family_result =
  family_isRelatedParty :: bool
  degree :: int
  relationshipType :: string
  family_basis :: string

definition family_assess_relationship :: "party \<Rightarrow> party \<Rightarrow> family_result" where
  "family_assess_relationship person1 person2 =
     (let rt = get_or (relationship_type person1) '''';
          deg = calculate_degree rt;
          is_related = (if deg \<noteq> 0 then deg \<le> MAX_FAMILY_DEGREE CONFIG else False)
      in \<lparr> family_isRelatedParty = is_related,
           degree = deg,
           relationshipType = rt,
           family_basis =
             (if is_related then ''Family relationship - '' @ str_int deg @ '' degree''
              else ''No family relation within 4th degree'') \<rparr>)"

section \<open>Corporate relationship analyzer\<close>

text \<open>
  Each of the three sub-analyses returns a dictionary with \<^verbatim>\<open>isRelated\<close>, the raw
  figures it used, and a fixed \<^verbatim>\<open>basis\<close> string. The figures are kept as an
  association list under their source keys.
\<close>

record analysis =
  isRelated :: bool
  figures :: "(string \<times> int) list"
  analysis_basis :: string

definition analyze_ownership :: "party \<Rightarrow> party \<Rightarrow> analysis" where
  "analyze_ownership entity1 entity2 =
     (let direct_ownership_1 = get_or (direct (get_or (ownership entity1) empty_ownership)) 0;
          indirect_ownership_1 = get_or (indirect (get_or (ownership entity1) empty_ownership)) 0;
          total_ownership_1 = direct_ownership_1 + indirect_ownership_1;
          direct_ownership_2 = get_or (direct (get_or (ownership entity2) empty_ownership)) 0;
          indirect_ownership_2 = get_or (indirect (get_or (ownership entity2) empty_ownership)) 0;
          total_ownership_2 = direct_ownership_2 + indirect_ownership_2;
          is_related_1 = (total_ownership_1 \<ge> OWNERSHIP_THRESHOLD CONFIG);
          is_related_2 = (total_ownership_2 \<ge> OWNERSHIP_THRESHOLD CONFIG)
      in \<lparr> isRelated = (is_related_1 \<or> is_related_2),
           figures = [(''entity1_total_ownership'', total_ownership_1),
                      (''entity2_total_ownership'', total_ownership_2)],
           analysis_basis = ''Ownership >= 50%'' \<rparr>)"

definition analyze_control :: "party \<Rightarrow> party \<Rightarrow> analysis" where
  "analyze_control entity1 entity2 =
     (let entity1_voting = get_or (votingRights entity1) 0;
          entity2_voting = get_or (votingRights entity2) 0;
          entity1_profit = get_or (profitEntitlement entity1) 0;
          entity2_profit = get_or (profitEntitlement entity2) 0;
          is_related_1 = (entity1_voting \<ge> CONTROL_THRESHOLD CONFIG
                          \<or> entity1_profit \<ge> CONTROL_THRESHOLD CONFIG);
          is_related_2 = (entity2_voting \<ge> CONTROL_THRESHOLD CONFIG
                          \<or> entity2_profit \<ge> CONTROL_THRESHOLD CONFIG)
      in \<lparr> isRelated = (is_related_1 \<or> is_related_2),
           figures = [(''entity1_voting'', entity1_voting),
                      (''entity2_voting'', entity2_voting),
                      (''entity1_profit'', entity1_profit),
                      (''entity2_profit'', entity2_profit)],
           analysis_basis = ''Control through voting rights or profit entitlement >= 50%'' \<rparr>)"

definition analyze_management :: "party \<Rightarrow> party \<Rightarrow> analysis" where
  "analyze_management entity1 entity2 =
     (let entity1_control = get_or (managementControl entity1) 0;
          entity2_control = get_or (managementControl entity2) 0;
          is_related_1 = (entity1_control \<ge> CONTROL_THRESHOLD CONFIG);
          is_related_2 = (entity2_control \<ge> CONTROL_THRESHOLD CONFIG)
      in \<lparr> isRelated = (is_related_1 \<or> is_related_2),
           figures = [(''entity1_management_control'', entity1_control),
                      (''entity2_management_control'', entity2_control)],
           analysis_basis = ''Management control >= 50%'' \<rparr>)"

record corporate_result =
  corporate_isRelatedParty :: bool
  relationships :: "(string \<times> analysis) list"

definition corporate_assess_relationship :: "party \<Rightarrow> party \<Rightarrow> corporate_result" where
  "corporate_assess_relationship entity1 entity2 =
     (let ownership_analysis = analyze_ownership entity1 entity2;
          control_analysis = analyze_control entity1 entity2;
          management_analysis = analyze_management entity1 entity2
      in \<lparr> corporate_isRelatedParty =
             (isRelated ownership_analysis \<or> isRelated control_analysis
              \<or> isRelated management_analysis),
           relationships = [(''ownership'', ownership_analysis),
                            (''control'', control_analysis),
                            (''management'', management_analysis)] \<rparr>)"

section \<open>Connected person analyzer\<close>

record check =
  isConnected :: bool
  check_basis :: string

definition check_directorship :: "party \<Rightarrow> party \<Rightarrow> check" where
  "check_directorship person entity =
     (let is_connected = get_or (isDirector person) False
      in \<lparr> isConnected = is_connected,
           check_basis = (if is_connected then ''Director relationship'' else '''') \<rparr>)"

definition check_officer :: "party \<Rightarrow> party \<Rightarrow> check" where
  "check_officer person entity =
     (let is_connected = get_or (isOfficer person) False
      in \<lparr> isConnected = is_connected,
           check_basis = (if is_connected then ''Officer relationship'' else '''') \<rparr>)"

definition check_ownership :: "party \<Rightarrow> party \<Rightarrow> check" where
  "check_ownership person entity =
     (let personal_ownership = get_or (personalOwnership person) 0;
          family_ownership = get_or (familyOwnership person) 0;
          combined_ownership = personal_ownership + family_ownership;
          is_connected = (combined_ownership \<ge> OWNERSHIP_THRESHOLD CONFIG)
      in \<lparr> isConnected = is_connected,
           check_basis = (if is_connected then ''Ownership >= 50%'' else '''') \<rparr>)"

record connection_result =
  connection_isConnectedPerson :: bool
  connection_basis :: "string list"

definition assess_connection :: "party \<Rightarrow> party \<Rightarrow> connection_result" where
  "assess_connection person entity =
     (let directorship_test = check_directorship person entity;
          officer_test = check_officer person entity;
          ownership_test = check_ownership person entity;
          is_connected = (isConnected directorship_test \<or> isConnected officer_test
                          \<or> isConnected ownership_test);
          basis0 = [];
          basis1 = (if isConnected directorship_test
                    then basis0 @ [check_basis directorship_test] else basis0);
          basis2 = (if isConnected officer_test
                    then basis1 @ [check_basis officer_test] else basis1);
          basis3 = (if isConnected ownership_test
                    then basis2 @ [check_basis ownership_test] else basis2)
      in \<lparr> connection_isConnectedPerson = is_connected, connection_basis = basis3 \<rparr>)"

section \<open>Special entity analyzer\<close>

definition assess_permanent_establishment :: "party \<Rightarrow> party \<Rightarrow> bool" where
  "assess_permanent_establishment entity1 entity2 =
     (if party_type entity1 = Some ''CORPORATE''
         \<and> party_type entity2 = Some ''PERMANENT_ESTABLISHMENT''
      then True else False)"

definition assess_partnership :: "party \<Rightarrow> party \<Rightarrow> bool" where
  "assess_partnership entity1 entity2 =
     (if companyType entity1 = Some ''Partnership'' \<and> companyType entity2 = Some ''Partnership''
      then True else False)"

definition assess_trust_foundation :: "party \<Rightarrow> party \<Rightarrow> bool" where
  "assess_trust_foundation entity1 entity2 =
     (if companyType entity1 \<in> set [Some ''Trust'', Some ''Foundation'']
         \<or> companyType entity2 \<in> set [Some ''Trust'', Some ''Foundation'']
      then True else False)"

section \<open>Risk analyzer\<close>

record risk_data =
  data_crossBorder :: "bool option"
  data_highValueTransactions :: "bool option"
  data_layersOfOwnership :: "int option"

definition assess_complexity :: "risk_data \<Rightarrow> int" where
  "assess_complexity relationship_data =
     (let layers = get_or (data_layersOfOwnership relationship_data) 1
      in if layers > 3 then 3 else if layers = 3 then 2 else 1)"

definition analyze_risk :: "risk_data \<Rightarrow> risk_assessment" where
  "analyze_risk relationship_data =
     (let complexity_score = assess_complexity relationship_data;
          cross_border = get_or (data_crossBorder relationship_data) False;
          high_value = get_or (data_highValueTransactions relationship_data) False;
          risk_level =
            (if complexity_score \<ge> 3 \<or> cross_border \<or> high_value then ''HIGH''
             else if complexity_score = 2 then ''MEDIUM''
             else ''LOW'')
      in \<lparr> riskLevel = risk_level,
           factors = \<lparr> complexityScore = complexity_score,
                       factor_crossBorder = cross_border,
                       factor_highValueTransactions = high_value \<rparr> \<rparr>)"

section \<open>Documentation analyzer\<close>

definition is_master_file_required :: "party \<Rightarrow> bool" where
  "is_master_file_required entity =
     (let group_revenue = get_or (groupConsolidatedRevenue entity) 0
      in group_revenue \<ge> MNE_GROUP_CONSOLIDATED (DOCUMENTATION_THRESHOLDS CONFIG))"

definition is_local_file_required :: "party \<Rightarrow> bool" where
  "is_local_file_required entity =
     (let rev = get_or (revenue entity) 0
      in rev \<ge> REVENUE (DOCUMENTATION_THRESHOLDS CONFIG))"

definition is_disclosure_required :: "result \<Rightarrow> bool" where
  "is_disclosure_required relationship = isRelatedParty relationship"

definition determine_requirements :: "party \<Rightarrow> result \<Rightarrow> risk_assessment \<Rightarrow> documentation" where
  "determine_requirements entity relationship risk =
     (let master_file_req = is_master_file_required entity;
          local_file_req = is_local_file_required entity;
          disclosure_form_req = is_disclosure_required relationship;
          additional_docs =
            (if riskLevel risk = ''HIGH''
             then [] @ [''Detailed Intercompany Agreement Documentation''] else [])
      in \<lparr> masterFile = master_file_req,
           localFile = local_file_req,
           disclosureForm = disclosure_form_req,
           additionalDocs = additional_docs \<rparr>)"

section \<open>Main assessment controller\<close>

definition initial_result :: result where
  "initial_result =
     \<lparr> isRelatedParty = False, isConnectedPerson = False, basis = [], specialCases = [],
       riskAssessment = None, documentationRequired = None \<rparr>"

text \<open>
  The loop \<^verbatim>\<open>for k, v in rel["relationships"].items()\<close>, which appends the basis
  of every sub-analysis that is related, in the insertion order of the dictionary.
\<close>

fun append_related_bases :: "(string \<times> analysis) list \<Rightarrow> result \<Rightarrow> result" where
  "append_related_bases [] res = res"
| "append_related_bases ((k, v) # rest) res =
     append_related_bases rest
       (if isRelated v then res\<lparr>basis := basis res @ [analysis_basis v]\<rparr> else res)"

definition merge_corporate :: "corporate_result \<Rightarrow> result \<Rightarrow> result" where
  "merge_corporate corp_rel res =
     (if corporate_isRelatedParty corp_rel
      then append_related_bases (relationships corp_rel) (res\<lparr>isRelatedParty := True\<rparr>)
      else res)"

fun append_all :: "string list \<Rightarrow> result \<Rightarrow> result" where
  "append_all [] res = res"
| "append_all (b # bs) res = append_all bs (res\<lparr>basis := basis res @ [b]\<rparr>)"

definition merge_connected :: "connection_result \<Rightarrow> result \<Rightarrow> result" where
  "merge_connected connected_rel res =
     (if connection_isConnectedPerson connected_rel
      then append_all (connection_basis connected_rel) (res\<lparr>isConnectedPerson := True\<rparr>)
      else res)"

text \<open>The dispatch on the pair of upper-cased types: the \<^verbatim>\<open>if/elif/elif\<close> chain.\<close>

definition relationship_tests :: "party \<Rightarrow> party \<Rightarrow> result \<Rightarrow> result" where
  "relationship_tests party1 party2 res =
     (let party1_type = upper (get_or (party_type party1) '''');
          party2_type = upper (get_or (party_type party2) '''')
      in if party1_type = ''INDIVIDUAL'' \<and> party2_type = ''INDIVIDUAL'' then
           (let fam_rel = family_assess_relationship party1 party2
            in if family_isRelatedParty fam_rel
               then res\<lparr>isRelatedParty := True, basis := basis res @ [family_basis fam_rel]\<rparr>
               else res)
         else if party1_type = ''CORPORATE'' \<and> party2_type = ''CORPORATE'' then
           merge_corporate (corporate_assess_relationship party1 party2) res
         else if (party1_type = ''INDIVIDUAL'' \<and> party2_type = ''CORPORATE'')
                 \<or> (party1_type = ''CORPORATE'' \<and> party2_type = ''INDIVIDUAL'') then
           (let connected_rel =
                  (if party1_type = ''INDIVIDUAL'' then assess_connection party1 party2
                   else assess_connection party2 party1);
                corp_analyzer_result = corporate_assess_relationship party1 party2
            in merge_connected connected_rel (merge_corporate corp_analyzer_result res))
         else res)"

definition special_entity_checks :: "party \<Rightarrow> party \<Rightarrow> result \<Rightarrow> result" where
  "special_entity_checks party1 party2 res =
     (let res1 = (if assess_permanent_establishment party1 party2
                  then res\<lparr>isRelatedParty := True,
                           specialCases := specialCases res @ [''Permanent Establishment relationship'']\<rparr>
                  else res);
          res2 = (if assess_partnership party1 party2
                  then res1\<lparr>isRelatedParty := True,
                            specialCases := specialCases res1 @ [''Partnership relationship'']\<rparr>
                  else res1);
          res3 = (if assess_trust_foundation party1 party2
                  then res2\<lparr>isRelatedParty := True,
                            specialCases := specialCases res2 @ [''Trust/Foundation relationship'']\<rparr>
                  else res2)
      in res3)"

definition build_risk_data :: "party \<Rightarrow> party \<Rightarrow> risk_data" where
  "build_risk_data party1 party2 =
     \<lparr> data_crossBorder =
         Some (get_or (crossBorder party1) False \<or> get_or (crossBorder party2) False),
       data_highValueTransactions =
         Some (get_or (highValueTransactions party1) False
               \<or> get_or (highValueTransactions party2) False),
       data_layersOfOwnership =
         Some (max (get_or (layersOfOwnership party1) 1) (get_or (layersOfOwnership party2) 1)) \<rparr>"

definition assess_relationship :: "party \<Rightarrow> party \<Rightarrow> result" where
  "assess_relationship party1 party2 =
     (let res0 = initial_result;
          res1 = relationship_tests party1 party2 res0;
          res2 = special_entity_checks party1 party2 res1;
          risk_data = build_risk_data party1 party2;
          risk = analyze_risk risk_data;
          res3 = res2\<lparr>riskAssessment := Some risk\<rparr>;
          doc_req = determine_requirements party1 res3 risk;
          res4 = res3\<lparr>documentationRequired := Some doc_req\<rparr>
      in res4)"

section \<open>Type values of any Python type\<close>

text \<open>
  The controller starts with \<^verbatim>\<open>party1.get("type", "").upper()\<close> and the same for
  party 2, before any analyzer runs. A string has the method \<^verbatim>\<open>upper\<close>; \<^verbatim>\<open>None\<close>,
  a boolean and an integer do not, and the call raises \<^verbatim>\<open>AttributeError\<close>. A party
  dictionary is the value under the key \<^verbatim>\<open>type\<close>, of any of these Python types or
  absent, together with the other keys as in \<open>party\<close> (whose \<open>party_type\<close> field is
  not read here).
\<close>

datatype py_value = PyNone | PyBool bool | PyInt int | PyStr string







section \<open>Notions used to state the properties\<close>


definition normalized_type :: "party \<Rightarrow> string" where
  "normalized_type p = upper (get_or (party_type p) '''')"

definition total_ownership :: "party \<Rightarrow> int" where
  "total_ownership e =
     get_or (direct (get_or (ownership e) empty_ownership)) 0
     + get_or (indirect (get_or (ownership e) empty_ownership)) 0"

definition entity_thresholds_met :: "party \<Rightarrow> bool" where
  "entity_thresholds_met e =
     (total_ownership e \<ge> 50 \<or> get_or (votingRights e) 0 \<ge> 50
      \<or> get_or (profitEntitlement e) 0 \<ge> 50 \<or> get_or (managementControl e) 0 \<ge> 50)"

definition corporate_thresholds_met :: "party \<Rightarrow> party \<Rightarrow> bool" where
  "corporate_thresholds_met e1 e2 = (entity_thresholds_met e1 \<or> entity_thresholds_met e2)"

subsection \<open>Concrete parties\<close>

text \<open>
  Parties as the form of the front end builds them: a corporate party with every figure at
  zero, an individual with no relationship label, and variations of the two.
\<close>


definition corporate_zero :: party where
  "corporate_zero =
     \<lparr> party_type = Some ''CORPORATE'', crossBorder = Some False,
       highValueTransactions = Some False, layersOfOwnership = Some 1, companyType = None,
       relationship_type = None, isDirector = None, isOfficer = None,
       personalOwnership = None, familyOwnership = None, revenue = Some 0,
       groupConsolidatedRevenue = Some 0,
       ownership = Some \<lparr> direct = Some 0, indirect = Some 0 \<rparr>,
       votingRights = Some 0, profitEntitlement = Some 0, managementControl = Some 0 \<rparr>"

definition individual_blank :: party where
  "individual_blank =
     \<lparr> party_type = Some ''INDIVIDUAL'', crossBorder = Some False,
       highValueTransactions = Some False, layersOfOwnership = Some 1, companyType = None,
       relationship_type = Some '''', isDirector = Some False, isOfficer = Some False,
       personalOwnership = Some 0, familyOwnership = Some 0, revenue = None,
       groupConsolidatedRevenue = None, ownership = None,
       votingRights = None, profitEntitlement = None, managementControl = None \<rparr>"

definition trust_corporate :: party where
  "trust_corporate = corporate_zero\<lparr>companyType := Some ''Trust''\<rparr>"

definition majority_corporate :: party where
  "majority_corporate = corporate_zero\<lparr>ownership := Some \<lparr> direct = Some 60, indirect = Some 0 \<rparr>\<rparr>"

subsection \<open>Risk inputs\<close>

definition merged_cross_border :: "party \<Rightarrow> party \<Rightarrow> bool" where
  "merged_cross_border p1 p2 = (get_or (crossBorder p1) False \<or> get_or (crossBorder p2) False)"

definition merged_high_value :: "party \<Rightarrow> party \<Rightarrow> bool" where
  "merged_high_value p1 p2 =
     (get_or (highValueTransactions p1) False \<or> get_or (highValueTransactions p2) False)"

definition max_layers :: "party \<Rightarrow> party \<Rightarrow> int" where
  "max_layers p1 p2 = max (get_or (layersOfOwnership p1) 1) (get_or (layersOfOwnership p2) 1)"

definition complexity_of_layers :: "int \<Rightarrow> int" where
  "complexity_of_layers l = (if l > 3 then 3 else if l = 3 then 2 else 1)"

definition risk_level_of :: "result \<Rightarrow> string option" where
  "risk_level_of res = (case riskAssessment res of None \<Rightarrow> None | Some ra \<Rightarrow> Some (riskLevel ra))"

definition complexity_score_of :: "result \<Rightarrow> int option" where
  "complexity_score_of res =
     (case riskAssessment res of None \<Rightarrow> None | Some ra \<Rightarrow> Some (complexityScore (factors ra)))"

definition cross_border_corporate :: party where
  "cross_border_corporate = corporate_zero\<lparr>crossBorder := Some True\<rparr>"

definition two_layer_corporate :: party where
  "two_layer_corporate = corporate_zero\<lparr>layersOfOwnership := Some 2\<rparr>"

definition three_layer_corporate :: party where
  "three_layer_corporate = corporate_zero\<lparr>layersOfOwnership := Some 3\<rparr>"

subsection \<open>Documentation inputs\<close>

definition at_revenue_threshold :: party where
  "at_revenue_threshold = corporate_zero\<lparr>revenue := Some 200000000\<rparr>"

definition below_revenue_threshold :: party where
  "below_revenue_threshold = corporate_zero\<lparr>revenue := Some 199999999\<rparr>"

definition large_group_corporate :: party where
  "large_group_corporate =
     cross_border_corporate\<lparr>groupConsolidatedRevenue := Some 3150000000\<rparr>"

definition rich_corporate :: party where
  "rich_corporate =
     corporate_zero\<lparr>revenue := Some 900000000, groupConsolidatedRevenue := Some 9000000000\<rparr>"

subsection \<open>Dispatch\<close>

definition dispatch_matches :: "party \<Rightarrow> party \<Rightarrow> bool" where
  "dispatch_matches p1 p2 =
     ((normalized_type p1 = ''INDIVIDUAL'' \<and> normalized_type p2 = ''INDIVIDUAL'')
      \<or> (normalized_type p1 = ''CORPORATE'' \<and> normalized_type p2 = ''CORPORATE'')
      \<or> (normalized_type p1 = ''INDIVIDUAL'' \<and> normalized_type p2 = ''CORPORATE'')
      \<or> (normalized_type p1 = ''CORPORATE'' \<and> normalized_type p2 = ''INDIVIDUAL''))"

definition special_company_types :: "string option list" where
  "special_company_types = [Some ''Partnership'', Some ''Trust'', Some ''Foundation'']"

definition permanent_establishment :: party where
  "permanent_establishment =
     empty_party\<lparr>party_type := Some ''PERMANENT_ESTABLISHMENT'', crossBorder := Some False,
       highValueTransactions := Some False, layersOfOwnership := Some 1\<rparr>"

definition lowercase_corporate :: party where
  "lowercase_corporate = majority_corporate\<lparr>party_type := Some ''corporate''\<rparr>"

definition lowercase_permanent_establishment :: party where
  "lowercase_permanent_establishment =
     permanent_establishment\<lparr>party_type := Some ''permanent_establishment''\<rparr>"

subsection \<open>Individual pairs\<close>

definition relationship_label :: "party \<Rightarrow> string" where
  "relationship_label p = get_or (relationship_type p) ''''"

definition recognized_label :: "string \<Rightarrow> bool" where
  "recognized_label l = (\<exists>(d, labels) \<in> set family_degrees. l \<in> set labels)"

definition sibling_individual :: party where
  "sibling_individual = individual_blank\<lparr>relationship_type := Some ''sibling''\<rparr>"

definition friend_individual :: party where
  "friend_individual = individual_blank\<lparr>relationship_type := Some ''friend''\<rparr>"

definition friend_trust_individual :: party where
  "friend_trust_individual = friend_individual\<lparr>companyType := Some ''Trust''\<rparr>"

subsection \<open>Mixed pairs\<close>

definition mixed_pair :: "party \<Rightarrow> party \<Rightarrow> bool" where
  "mixed_pair p1 p2 =
     ((normalized_type p1 = ''INDIVIDUAL'' \<and> normalized_type p2 = ''CORPORATE'')
      \<or> (normalized_type p1 = ''CORPORATE'' \<and> normalized_type p2 = ''INDIVIDUAL''))"

definition individual_side :: "party \<Rightarrow> party \<Rightarrow> party" where
  "individual_side p1 p2 = (if normalized_type p1 = ''INDIVIDUAL'' then p1 else p2)"

definition corporate_side :: "party \<Rightarrow> party \<Rightarrow> party" where
  "corporate_side p1 p2 = (if normalized_type p1 = ''INDIVIDUAL'' then p2 else p1)"

definition lacks_corporate_fields :: "party \<Rightarrow> bool" where
  "lacks_corporate_fields p =
     (ownership p = None \<and> votingRights p = None \<and> profitEntitlement p = None
      \<and> managementControl p = None)"

definition related_bases :: "party \<Rightarrow> party \<Rightarrow> string list" where
  "related_bases e1 e2 =
     (if isRelated (analyze_ownership e1 e2) then [''Ownership >= 50%''] else [])
     @ (if isRelated (analyze_control e1 e2)
        then [''Control through voting rights or profit entitlement >= 50%''] else [])
     @ (if isRelated (analyze_management e1 e2) then [''Management control >= 50%''] else [])"

subsection \<open>Party dictionaries\<close>






section \<open>Lemmas about the phases of the controller\<close>

lemma append_related_bases_eq:
  "append_related_bases xs r
     = r\<lparr>basis := basis r @ map (\<lambda>kv. analysis_basis (snd kv)) (filter (\<lambda>kv. isRelated (snd kv)) xs)\<rparr>"
proof (induction xs arbitrary: r)
  case Nil
  show ?case by simp
next
  case (Cons kv xs)
  obtain k v where kv: "kv = (k, v)" by (cases kv)
  show ?case by (simp add: kv Cons.IH)
qed

lemma append_all_eq: "append_all bs r = r\<lparr>basis := basis r @ bs\<rparr>"
  by (induction bs arbitrary: r) simp_all

lemma corporate_isRelatedParty_iff:
  "corporate_isRelatedParty (corporate_assess_relationship e1 e2) = corporate_thresholds_met e1 e2"
  by (auto simp: corporate_assess_relationship_def analyze_ownership_def analyze_control_def
      analyze_management_def corporate_thresholds_met_def entity_thresholds_met_def
      total_ownership_def CONFIG_def Let_def)

lemma merge_corporate_sel:
  "isRelatedParty (merge_corporate (corporate_assess_relationship e1 e2) r)
     = (isRelatedParty r \<or> corporate_thresholds_met e1 e2)"
  "isConnectedPerson (merge_corporate c r) = isConnectedPerson r"
  "specialCases (merge_corporate c r) = specialCases r"
  by (simp_all add: merge_corporate_def append_related_bases_eq corporate_isRelatedParty_iff)

lemma merge_connected_sel:
  "isRelatedParty (merge_connected c r) = isRelatedParty r"
  "isConnectedPerson (merge_connected c r) = (isConnectedPerson r \<or> connection_isConnectedPerson c)"
  "specialCases (merge_connected c r) = specialCases r"
  "basis (merge_connected c r)
     = basis r @ (if connection_isConnectedPerson c then connection_basis c else [])"
  by (simp_all add: merge_connected_def append_all_eq)

lemma special_entity_checks_sel:
  "isRelatedParty (special_entity_checks p1 p2 r)
     = (isRelatedParty r \<or> assess_permanent_establishment p1 p2 \<or> assess_partnership p1 p2
        \<or> assess_trust_foundation p1 p2)"
  "isConnectedPerson (special_entity_checks p1 p2 r) = isConnectedPerson r"
  "basis (special_entity_checks p1 p2 r) = basis r"
  "specialCases (special_entity_checks p1 p2 r)
     = specialCases r
       @ (if assess_permanent_establishment p1 p2 then [''Permanent Establishment relationship''] else [])
       @ (if assess_partnership p1 p2 then [''Partnership relationship''] else [])
       @ (if assess_trust_foundation p1 p2 then [''Trust/Foundation relationship''] else [])"
  by (simp_all add: special_entity_checks_def Let_def)

lemma assess_relationship_sel:
  "isRelatedParty (assess_relationship p1 p2)
     = (isRelatedParty (relationship_tests p1 p2 initial_result)
        \<or> assess_permanent_establishment p1 p2 \<or> assess_partnership p1 p2
        \<or> assess_trust_foundation p1 p2)"
  "isConnectedPerson (assess_relationship p1 p2)
     = isConnectedPerson (relationship_tests p1 p2 initial_result)"
  "basis (assess_relationship p1 p2) = basis (relationship_tests p1 p2 initial_result)"
  "specialCases (assess_relationship p1 p2)
     = specialCases (relationship_tests p1 p2 initial_result)
       @ (if assess_permanent_establishment p1 p2 then [''Permanent Establishment relationship''] else [])
       @ (if assess_partnership p1 p2 then [''Partnership relationship''] else [])
       @ (if assess_trust_foundation p1 p2 then [''Trust/Foundation relationship''] else [])"
  "riskAssessment (assess_relationship p1 p2) = Some (analyze_risk (build_risk_data p1 p2))"
  by (simp_all add: assess_relationship_def Let_def special_entity_checks_sel)

lemma assess_relationship_documentation:
  "documentationRequired (assess_relationship p1 p2)
     = Some \<lparr> masterFile = is_master_file_required p1,
              localFile = is_local_file_required p1,
              disclosureForm = isRelatedParty (assess_relationship p1 p2),
              additionalDocs =
                (if riskLevel (analyze_risk (build_risk_data p1 p2)) = ''HIGH''
                 then [''Detailed Intercompany Agreement Documentation''] else []) \<rparr>"
  by (simp add: assess_relationship_def Let_def determine_requirements_def
      is_disclosure_required_def)

lemma relationship_tests_corporate:
  assumes "normalized_type p1 = ''CORPORATE''" "normalized_type p2 = ''CORPORATE''"
  shows "relationship_tests p1 p2 r = merge_corporate (corporate_assess_relationship p1 p2) r"
  using assms by (simp add: relationship_tests_def normalized_type_def Let_def)

lemma initial_result_sel:
  "isRelatedParty initial_result = False" "isConnectedPerson initial_result = False"
  "basis initial_result = []" "specialCases initial_result = []"
  by (simp_all add: initial_result_def)

lemma analyze_risk_build:
  "riskLevel (analyze_risk (build_risk_data p1 p2))
     = (if complexity_of_layers (max_layers p1 p2) \<ge> 3 \<or> merged_cross_border p1 p2
           \<or> merged_high_value p1 p2 then ''HIGH''
        else if complexity_of_layers (max_layers p1 p2) = 2 then ''MEDIUM'' else ''LOW'')"
  "complexityScore (factors (analyze_risk (build_risk_data p1 p2)))
     = complexity_of_layers (max_layers p1 p2)"
  by (simp_all add: analyze_risk_def build_risk_data_def assess_complexity_def Let_def
      get_or_def complexity_of_layers_def max_layers_def merged_cross_border_def
      merged_high_value_def)

lemma risk_level_of_assess:
  "risk_level_of (assess_relationship p1 p2)
     = Some (riskLevel (analyze_risk (build_risk_data p1 p2)))"
  "complexity_score_of (assess_relationship p1 p2)
     = Some (complexity_of_layers (max_layers p1 p2))"
  by (simp_all add: risk_level_of_def complexity_score_of_def assess_relationship_sel
      analyze_risk_build)

lemma documentation_of_assess:
  "documentationRequired (assess_relationship p1 p2)
     = Some \<lparr> masterFile = (get_or (groupConsolidatedRevenue p1) 0 \<ge> 3150000000),
              localFile = (get_or (revenue p1) 0 \<ge> 200000000),
              disclosureForm = isRelatedParty (assess_relationship p1 p2),
              additionalDocs =
                (if risk_level_of (assess_relationship p1 p2) = Some ''HIGH''
                 then [''Detailed Intercompany Agreement Documentation''] else []) \<rparr>"
  by (simp add: assess_relationship_documentation risk_level_of_assess
      is_master_file_required_def is_local_file_required_def CONFIG_def)

lemma relationship_tests_update_revenue:
  "relationship_tests p1 (p2\<lparr>revenue := r, groupConsolidatedRevenue := g\<rparr>) res
     = relationship_tests p1 p2 res"
  by (simp add: relationship_tests_def family_assess_relationship_def
      corporate_assess_relationship_def analyze_ownership_def analyze_control_def
      analyze_management_def assess_connection_def check_directorship_def check_officer_def
      check_ownership_def Let_def)

lemma special_predicates_update_revenue:
  "assess_permanent_establishment p1 (p2\<lparr>revenue := r, groupConsolidatedRevenue := g\<rparr>)
     = assess_permanent_establishment p1 p2"
  "assess_partnership p1 (p2\<lparr>revenue := r, groupConsolidatedRevenue := g\<rparr>)
     = assess_partnership p1 p2"
  "assess_trust_foundation p1 (p2\<lparr>revenue := r, groupConsolidatedRevenue := g\<rparr>)
     = assess_trust_foundation p1 p2"
  "build_risk_data p1 (p2\<lparr>revenue := r, groupConsolidatedRevenue := g\<rparr>) = build_risk_data p1 p2"
  by (simp_all add: assess_permanent_establishment_def assess_partnership_def
      assess_trust_foundation_def build_risk_data_def)

lemma relationship_tests_specialCases:
  "specialCases (relationship_tests p1 p2 res) = specialCases res"
  by (simp add: relationship_tests_def Let_def merge_corporate_sel merge_connected_sel)

lemma relationship_tests_fallback:
  "\<not> dispatch_matches p1 p2 \<Longrightarrow> relationship_tests p1 p2 res = res"
  by (auto simp: relationship_tests_def dispatch_matches_def normalized_type_def Let_def)

lemma upper_literals:
  "upper ''corporate'' = ''CORPORATE''"
  "upper ''permanent_establishment'' = ''PERMANENT_ESTABLISHMENT''"
  by code_simp+

lemma calculate_degree_values:
  "calculate_degree ''parent'' = 1" "calculate_degree ''child'' = 1"
  "calculate_degree ''spouse_parent'' = 1" "calculate_degree ''spouse_child'' = 1"
  "calculate_degree ''grandparent'' = 2" "calculate_degree ''grandchild'' = 2"
  "calculate_degree ''sibling'' = 2" "calculate_degree ''spouse_sibling'' = 2"
  "calculate_degree ''great_grandparent'' = 3" "calculate_degree ''great_grandchild'' = 3"
  "calculate_degree ''uncle'' = 3" "calculate_degree ''aunt'' = 3"
  "calculate_degree ''niece'' = 3" "calculate_degree ''nephew'' = 3"
  "calculate_degree ''great_great_grandparent'' = 4"
  "calculate_degree ''great_great_grandchild'' = 4"
  "calculate_degree ''first_cousin'' = 4"
  by code_simp+

lemma calculate_degree_label_1:
  assumes "l \<in> set [''parent'', ''child'', ''spouse_parent'', ''spouse_child'']"
  shows "calculate_degree l = 1"
  using assms
  by (simp only: list.set insert_iff empty_iff simp_thms)
    (elim disjE; simp only: calculate_degree_values)

lemma calculate_degree_label_2:
  assumes "l \<in> set [''grandparent'', ''grandchild'', ''sibling'', ''spouse_sibling'']"
  shows "calculate_degree l = 2"
  using assms
  by (simp only: list.set insert_iff empty_iff simp_thms)
    (elim disjE; simp only: calculate_degree_values)

lemma calculate_degree_label_3:
  assumes "l \<in> set [''great_grandparent'', ''great_grandchild'', ''uncle'', ''aunt'',
                      ''niece'', ''nephew'']"
  shows "calculate_degree l = 3"
  using assms
  by (simp only: list.set insert_iff empty_iff simp_thms)
    (elim disjE; simp only: calculate_degree_values)

lemma calculate_degree_label_4:
  assumes "l \<in> set [''great_great_grandparent'', ''great_great_grandchild'', ''first_cousin'']"
  shows "calculate_degree l = 4"
  using assms
  by (simp only: list.set insert_iff empty_iff simp_thms)
    (elim disjE; simp only: calculate_degree_values)

lemma calculate_degree_recognized:
  assumes "(d, labels) \<in> set family_degrees" and "l \<in> set labels"
  shows "calculate_degree l = d \<and> 1 \<le> d \<and> d \<le> 4"
  using assms unfolding family_degrees_def
  by (simp only: list.set insert_iff empty_iff prod.inject simp_thms)
    (elim disjE conjE; hypsubst;
     (drule calculate_degree_label_1 | drule calculate_degree_label_2
      | drule calculate_degree_label_3 | drule calculate_degree_label_4); simp)

lemma calculate_degree_unrecognized:
  assumes "\<not> recognized_label l"
  shows "calculate_degree l = 999"
  using assms by (auto simp: recognized_label_def calculate_degree_def family_degrees_def)

lemma relationship_tests_individual:
  assumes "normalized_type p1 = ''INDIVIDUAL''" and "normalized_type p2 = ''INDIVIDUAL''"
  shows "relationship_tests p1 p2 res =
           (if calculate_degree (relationship_label p1) \<noteq> 0
               \<and> calculate_degree (relationship_label p1) \<le> 4
            then res\<lparr>isRelatedParty := True,
                     basis := basis res @ [''Family relationship - ''
                       @ str_int (calculate_degree (relationship_label p1)) @ '' degree'']\<rparr>
            else res)"
  using assms
  by (simp add: relationship_tests_def normalized_type_def family_assess_relationship_def
      relationship_label_def CONFIG_def Let_def)

lemma individual_not_permanent_establishment:
  "normalized_type p1 = ''INDIVIDUAL'' \<Longrightarrow> \<not> assess_permanent_establishment p1 p2"
  by (auto simp: assess_permanent_establishment_def normalized_type_def get_or_def upper_def
      upper_char_def)

lemma individual_pair_no_special_type:
  assumes "normalized_type p1 = ''INDIVIDUAL''"
  shows "isRelatedParty (assess_relationship p1 p2)
           = (isRelatedParty (relationship_tests p1 p2 initial_result)
              \<or> assess_partnership p1 p2 \<or> assess_trust_foundation p1 p2)"
  by (simp add: assess_relationship_sel individual_not_permanent_establishment [OF assms])

lemma assess_relationship_update_label:
  "assess_relationship p1 (p2\<lparr>relationship_type := r\<rparr>) = assess_relationship p1 p2"
proof -
  have "relationship_tests p1 (p2\<lparr>relationship_type := r\<rparr>) res = relationship_tests p1 p2 res"
    for res
    by (simp add: relationship_tests_def family_assess_relationship_def
        corporate_assess_relationship_def analyze_ownership_def analyze_control_def
        analyze_management_def assess_connection_def check_directorship_def check_officer_def
        check_ownership_def Let_def)
  then show ?thesis
    by (simp add: assess_relationship_def special_entity_checks_def
        assess_permanent_establishment_def assess_partnership_def assess_trust_foundation_def
        build_risk_data_def)
qed

lemma related_bases_empty_iff:
  "related_bases e1 e2 = [] \<longleftrightarrow> \<not> corporate_thresholds_met e1 e2"
  by (simp add: related_bases_def corporate_isRelatedParty_iff [symmetric]
      corporate_assess_relationship_def Let_def)

lemma merge_corporate_eq:
  "merge_corporate (corporate_assess_relationship e1 e2) res
     = (if corporate_thresholds_met e1 e2
        then res\<lparr>isRelatedParty := True, basis := basis res @ related_bases e1 e2\<rparr>
        else res)"
proof -
  have a: "analysis_basis (analyze_ownership e1 e2) = ''Ownership >= 50%''"
    by (simp add: analyze_ownership_def Let_def)
  have b: "analysis_basis (analyze_control e1 e2)
             = ''Control through voting rights or profit entitlement >= 50%''"
    by (simp add: analyze_control_def Let_def)
  have c: "analysis_basis (analyze_management e1 e2) = ''Management control >= 50%''"
    by (simp add: analyze_management_def Let_def)
  have r: "relationships (corporate_assess_relationship e1 e2)
             = [(''ownership'', analyze_ownership e1 e2), (''control'', analyze_control e1 e2),
                (''management'', analyze_management e1 e2)]"
    by (simp add: corporate_assess_relationship_def Let_def)
  show ?thesis
    by (simp add: merge_corporate_def corporate_isRelatedParty_iff append_related_bases_eq r
        a b c related_bases_def)
qed

lemma relationship_tests_mixed:
  assumes "mixed_pair p1 p2"
  shows "relationship_tests p1 p2 res
           = merge_connected (assess_connection (individual_side p1 p2) (corporate_side p1 p2))
               (merge_corporate (corporate_assess_relationship p1 p2) res)"
  using assms
  by (auto simp: mixed_pair_def relationship_tests_def normalized_type_def individual_side_def
      corporate_side_def Let_def)

lemma lacks_corporate_fields_thresholds:
  "lacks_corporate_fields p \<Longrightarrow> \<not> entity_thresholds_met p"
  by (simp add: lacks_corporate_fields_def entity_thresholds_met_def total_ownership_def
      get_or_def empty_ownership_def)




section \<open>Properties of the assessment\<close>

subsection \<open>Corporate pairs\<close>

text \<open>
  Claim C1, as amended. For every pair of parties whose types both normalize to
  \<^verbatim>\<open>CORPORATE\<close>, the assessment returns \<open>isRelatedParty = True\<close> if and only if
  one of the two parties has a total (direct plus indirect) ownership, voting rights, a
  profit entitlement or a management control of at least 50, or the partnership or the
  trust/foundation special-entity rule fires. The special-entity pass runs after the
  corporate tests and forces the flag, so the thresholds alone do not decide it.
\<close>

theorem corporate_pair_related_iff:
  assumes "normalized_type p1 = ''CORPORATE''" and "normalized_type p2 = ''CORPORATE''"
  shows "isRelatedParty (assess_relationship p1 p2)
           \<longleftrightarrow> (corporate_thresholds_met p1 p2 \<or> assess_partnership p1 p2
                \<or> assess_trust_foundation p1 p2)"
proof -
  have "\<not> assess_permanent_establishment p1 p2"
    using assms(2) by (auto simp: assess_permanent_establishment_def normalized_type_def get_or_def upper_def upper_char_def)
  then show ?thesis
    by (simp add: assess_relationship_sel relationship_tests_corporate [OF assms]
        merge_corporate_sel initial_result_sel)
qed


text \<open>The theorem at a pair whose first party holds 60 percent direct ownership.\<close>

theorem corporate_pair_related_iff_witness:
  "normalized_type majority_corporate = ''CORPORATE''
   \<and> normalized_type corporate_zero = ''CORPORATE''
   \<and> corporate_thresholds_met majority_corporate corporate_zero
   \<and> isRelatedParty (assess_relationship majority_corporate corporate_zero)"
proof -
  have h1: "normalized_type majority_corporate = ''CORPORATE''" by code_simp
  have h2: "normalized_type corporate_zero = ''CORPORATE''" by code_simp
  have c: "corporate_thresholds_met majority_corporate corporate_zero" by code_simp
  from corporate_pair_related_iff [OF h1 h2] c h1 h2 show ?thesis by simp
qed

text \<open>
  Claim C1 as stated fails: two corporate parties with every figure at zero, the first of
  company type \<^verbatim>\<open>Trust\<close>, are related parties.
\<close>

theorem corporate_zero_values_related_counterexample:
  "normalized_type trust_corporate = ''CORPORATE''
   \<and> normalized_type corporate_zero = ''CORPORATE''
   \<and> total_ownership trust_corporate = 0 \<and> total_ownership corporate_zero = 0
   \<and> get_or (votingRights trust_corporate) 0 = 0 \<and> get_or (votingRights corporate_zero) 0 = 0
   \<and> get_or (profitEntitlement trust_corporate) 0 = 0
   \<and> get_or (profitEntitlement corporate_zero) 0 = 0
   \<and> get_or (managementControl trust_corporate) 0 = 0
   \<and> get_or (managementControl corporate_zero) 0 = 0
   \<and> \<not> corporate_thresholds_met trust_corporate corporate_zero
   \<and> isRelatedParty (assess_relationship trust_corporate corporate_zero)"
  by code_simp

subsection \<open>Risk level\<close>

text \<open>
  Claim C2. For every assessment the complexity score is 3 when the larger of the two
  layer counts exceeds 3, 2 when it is 3 and 1 when it is below 3; the risk level is
  \<^verbatim>\<open>HIGH\<close> whenever one party is cross-border, one party has high-value
  transactions, or the complexity score is at least 3; it is \<^verbatim>\<open>MEDIUM\<close> exactly
  when the larger layer count is 3 and both merged flags are false; and it is
  \<^verbatim>\<open>LOW\<close> when the larger layer count is at most 2 and both merged flags are false.
\<close>

theorem risk_level_by_flags_and_layers:
  "complexity_score_of (assess_relationship p1 p2) = Some (complexity_of_layers (max_layers p1 p2))
   \<and> (merged_cross_border p1 p2 \<or> merged_high_value p1 p2
        \<or> complexity_of_layers (max_layers p1 p2) \<ge> 3
      \<longrightarrow> risk_level_of (assess_relationship p1 p2) = Some ''HIGH'')
   \<and> (risk_level_of (assess_relationship p1 p2) = Some ''MEDIUM''
      \<longleftrightarrow> max_layers p1 p2 = 3 \<and> \<not> merged_cross_border p1 p2 \<and> \<not> merged_high_value p1 p2)
   \<and> (max_layers p1 p2 \<le> 2 \<and> \<not> merged_cross_border p1 p2 \<and> \<not> merged_high_value p1 p2
      \<longrightarrow> risk_level_of (assess_relationship p1 p2) = Some ''LOW'')"
  by (simp add: risk_level_of_assess analyze_risk_build complexity_of_layers_def)

text \<open>
  The theorem at a cross-border pair with one layer, at a pair with three layers and at a
  pair with two layers.
\<close>

theorem risk_level_by_flags_and_layers_witness:
  "merged_cross_border cross_border_corporate corporate_zero
   \<and> max_layers cross_border_corporate corporate_zero = 1
   \<and> risk_level_of (assess_relationship cross_border_corporate corporate_zero) = Some ''HIGH''
   \<and> max_layers three_layer_corporate corporate_zero = 3
   \<and> \<not> merged_cross_border three_layer_corporate corporate_zero
   \<and> \<not> merged_high_value three_layer_corporate corporate_zero
   \<and> risk_level_of (assess_relationship three_layer_corporate corporate_zero) = Some ''MEDIUM''
   \<and> max_layers corporate_zero two_layer_corporate = 2
   \<and> \<not> merged_cross_border corporate_zero two_layer_corporate
   \<and> \<not> merged_high_value corporate_zero two_layer_corporate
   \<and> risk_level_of (assess_relationship corporate_zero two_layer_corporate) = Some ''LOW''"
proof -
  have a: "merged_cross_border cross_border_corporate corporate_zero" by code_simp
  have a': "max_layers cross_border_corporate corporate_zero = 1" by code_simp
  have b: "max_layers three_layer_corporate corporate_zero = 3"
    "\<not> merged_cross_border three_layer_corporate corporate_zero"
    "\<not> merged_high_value three_layer_corporate corporate_zero" by code_simp+
  have c: "max_layers corporate_zero two_layer_corporate = 2"
    "\<not> merged_cross_border corporate_zero two_layer_corporate"
    "\<not> merged_high_value corporate_zero two_layer_corporate" by code_simp+
  from risk_level_by_flags_and_layers [of cross_border_corporate corporate_zero]
    risk_level_by_flags_and_layers [of three_layer_corporate corporate_zero]
    risk_level_by_flags_and_layers [of corporate_zero two_layer_corporate]
    a a' b c
  show ?thesis by simp
qed

subsection \<open>Documentation requirements\<close>

text \<open>
  Claim C4. For every assessment the documentation record is present and has:
  \<^verbatim>\<open>masterFile\<close> true iff party 1's group consolidated revenue is at least
  3,150,000,000; \<^verbatim>\<open>localFile\<close> true iff party 1's revenue is at least 200,000,000
  (inclusive); \<^verbatim>\<open>disclosureForm\<close> equal to the related-party flag of the result;
  and \<^verbatim>\<open>additionalDocs\<close> the one-element list with the intercompany agreement label
  when the risk level is \<^verbatim>\<open>HIGH\<close>, the empty list otherwise. An absent revenue
  figure counts as 0.
\<close>

theorem documentation_required_fields:
  "documentationRequired (assess_relationship p1 p2)
     = Some \<lparr> masterFile = (get_or (groupConsolidatedRevenue p1) 0 \<ge> 3150000000),
              localFile = (get_or (revenue p1) 0 \<ge> 200000000),
              disclosureForm = isRelatedParty (assess_relationship p1 p2),
              additionalDocs =
                (if risk_level_of (assess_relationship p1 p2) = Some ''HIGH''
                 then [''Detailed Intercompany Agreement Documentation''] else []) \<rparr>"
  by (rule documentation_of_assess)

text \<open>
  The theorem at the revenue boundary (200,000,000 and 199,999,999) and at a cross-border
  party at the group threshold.
\<close>

theorem documentation_required_fields_witness:
  "documentationRequired (assess_relationship at_revenue_threshold corporate_zero)
     = Some \<lparr> masterFile = False, localFile = True, disclosureForm = False, additionalDocs = [] \<rparr>
   \<and> documentationRequired (assess_relationship below_revenue_threshold corporate_zero)
     = Some \<lparr> masterFile = False, localFile = False, disclosureForm = False, additionalDocs = [] \<rparr>
   \<and> documentationRequired (assess_relationship large_group_corporate trust_corporate)
     = Some \<lparr> masterFile = True, localFile = False, disclosureForm = True,
              additionalDocs = [''Detailed Intercompany Agreement Documentation''] \<rparr>"
proof -
  have a: "get_or (revenue at_revenue_threshold) 0 = 200000000"
    "get_or (groupConsolidatedRevenue at_revenue_threshold) 0 = 0"
    "isRelatedParty (assess_relationship at_revenue_threshold corporate_zero) = False"
    "risk_level_of (assess_relationship at_revenue_threshold corporate_zero) = Some ''LOW''"
    by code_simp+
  have b: "get_or (revenue below_revenue_threshold) 0 = 199999999"
    "get_or (groupConsolidatedRevenue below_revenue_threshold) 0 = 0"
    "isRelatedParty (assess_relationship below_revenue_threshold corporate_zero) = False"
    "risk_level_of (assess_relationship below_revenue_threshold corporate_zero) = Some ''LOW''"
    by code_simp+
  have c: "get_or (revenue large_group_corporate) 0 = 0"
    "get_or (groupConsolidatedRevenue large_group_corporate) 0 = 3150000000"
    "isRelatedParty (assess_relationship large_group_corporate trust_corporate) = True"
    "risk_level_of (assess_relationship large_group_corporate trust_corporate) = Some ''HIGH''"
    by code_simp+
  show ?thesis
    using documentation_required_fields [of at_revenue_threshold corporate_zero]
      documentation_required_fields [of below_revenue_threshold corporate_zero]
      documentation_required_fields [of large_group_corporate trust_corporate]
    by (simp add: a b c)
qed

text \<open>
  Claim C7. The documentation record is a function of party 1's revenue and group
  consolidated revenue, of the related-party flag of the result and of the risk level
  only: two assessments that agree on these four have the same documentation record.
  In particular, changing party 2's revenue and group consolidated revenue leaves the
  documentation record as it was.
\<close>

theorem documentation_independent_of_party2_revenue:
  "documentationRequired (assess_relationship p1 (p2\<lparr>revenue := r, groupConsolidatedRevenue := g\<rparr>))
     = documentationRequired (assess_relationship p1 p2)
   \<and> (get_or (revenue p1) 0 = get_or (revenue q1) 0
      \<and> get_or (groupConsolidatedRevenue p1) 0 = get_or (groupConsolidatedRevenue q1) 0
      \<and> isRelatedParty (assess_relationship p1 p2) = isRelatedParty (assess_relationship q1 q2)
      \<and> risk_level_of (assess_relationship p1 p2) = risk_level_of (assess_relationship q1 q2)
      \<longrightarrow> documentationRequired (assess_relationship p1 p2)
          = documentationRequired (assess_relationship q1 q2))"
proof -
  have "assess_relationship p1 (p2\<lparr>revenue := r, groupConsolidatedRevenue := g\<rparr>)
          = assess_relationship p1 p2"
    by (simp add: assess_relationship_def special_entity_checks_def
        relationship_tests_update_revenue special_predicates_update_revenue)
  then show ?thesis by (simp add: documentation_of_assess)
qed

text \<open>
  The theorem at a pair whose second party's revenue figures are raised above both
  thresholds, and at two pairs that agree on the four deciding values.
\<close>

theorem documentation_independent_of_party2_revenue_witness:
  "documentationRequired (assess_relationship corporate_zero rich_corporate)
     = documentationRequired (assess_relationship corporate_zero corporate_zero)
   \<and> corporate_zero\<lparr>revenue := Some 900000000, groupConsolidatedRevenue := Some 9000000000\<rparr>
       = rich_corporate
   \<and> get_or (revenue corporate_zero) 0 = get_or (revenue two_layer_corporate) 0
   \<and> get_or (groupConsolidatedRevenue corporate_zero) 0
       = get_or (groupConsolidatedRevenue two_layer_corporate) 0
   \<and> isRelatedParty (assess_relationship corporate_zero rich_corporate)
       = isRelatedParty (assess_relationship two_layer_corporate corporate_zero)
   \<and> risk_level_of (assess_relationship corporate_zero rich_corporate)
       = risk_level_of (assess_relationship two_layer_corporate corporate_zero)
   \<and> documentationRequired (assess_relationship corporate_zero rich_corporate)
       = documentationRequired (assess_relationship two_layer_corporate corporate_zero)"
proof -
  have a: "get_or (revenue corporate_zero) 0 = get_or (revenue two_layer_corporate) 0"
    "get_or (groupConsolidatedRevenue corporate_zero) 0
       = get_or (groupConsolidatedRevenue two_layer_corporate) 0"
    "isRelatedParty (assess_relationship corporate_zero rich_corporate)
       = isRelatedParty (assess_relationship two_layer_corporate corporate_zero)"
    "risk_level_of (assess_relationship corporate_zero rich_corporate)
       = risk_level_of (assess_relationship two_layer_corporate corporate_zero)"
    by code_simp+
  have b: "corporate_zero\<lparr>revenue := Some 900000000, groupConsolidatedRevenue := Some 9000000000\<rparr>
             = rich_corporate"
    by (simp add: rich_corporate_def)
  from documentation_independent_of_party2_revenue
         [of corporate_zero "Some 9000000000" "Some 900000000" corporate_zero
             two_layer_corporate corporate_zero]
    documentation_independent_of_party2_revenue
         [of corporate_zero "Some 9000000000" "Some 900000000" rich_corporate
             two_layer_corporate corporate_zero]
    a b
  show ?thesis by simp
qed

subsection \<open>The permanent establishment rule\<close>

text \<open>
  Claim C9. The permanent-establishment rule fires exactly when party 1's type is the
  string \<^verbatim>\<open>CORPORATE\<close> and party 2's type is the string
  \<^verbatim>\<open>PERMANENT_ESTABLISHMENT\<close>: the label
  \<^verbatim>\<open>Permanent Establishment relationship\<close> is among the special cases of the result
  exactly then, and then the result is a related party. For the reverse order (party 1 a
  permanent establishment, party 2 corporate) the rule does not fire.
\<close>

theorem permanent_establishment_rule_directional:
  "(assess_permanent_establishment p1 p2
      \<longleftrightarrow> party_type p1 = Some ''CORPORATE'' \<and> party_type p2 = Some ''PERMANENT_ESTABLISHMENT'')
   \<and> (''Permanent Establishment relationship'' \<in> set (specialCases (assess_relationship p1 p2))
      \<longleftrightarrow> party_type p1 = Some ''CORPORATE'' \<and> party_type p2 = Some ''PERMANENT_ESTABLISHMENT'')
   \<and> (party_type p1 = Some ''CORPORATE'' \<and> party_type p2 = Some ''PERMANENT_ESTABLISHMENT''
      \<longrightarrow> isRelatedParty (assess_relationship p1 p2))
   \<and> (party_type p1 = Some ''PERMANENT_ESTABLISHMENT'' \<and> party_type p2 = Some ''CORPORATE''
      \<longrightarrow> \<not> assess_permanent_establishment p1 p2
          \<and> ''Permanent Establishment relationship'' \<notin> set (specialCases (assess_relationship p1 p2)))"
proof -
  have pe: "assess_permanent_establishment p1 p2
      \<longleftrightarrow> party_type p1 = Some ''CORPORATE'' \<and> party_type p2 = Some ''PERMANENT_ESTABLISHMENT''"
    by (simp add: assess_permanent_establishment_def)
  have sc: "''Permanent Establishment relationship'' \<in> set (specialCases (assess_relationship p1 p2))
      \<longleftrightarrow> assess_permanent_establishment p1 p2"
    by (simp add: assess_relationship_sel relationship_tests_specialCases initial_result_sel)
  have rel: "assess_permanent_establishment p1 p2 \<Longrightarrow> isRelatedParty (assess_relationship p1 p2)"
    by (simp add: assess_relationship_sel)
  show ?thesis using rel by (auto simp: sc pe)
qed

text \<open>The theorem at a corporate party and a permanent establishment, in both orders.\<close>

theorem permanent_establishment_rule_directional_witness:
  "party_type corporate_zero = Some ''CORPORATE''
   \<and> party_type permanent_establishment = Some ''PERMANENT_ESTABLISHMENT''
   \<and> isRelatedParty (assess_relationship corporate_zero permanent_establishment)
   \<and> ''Permanent Establishment relationship''
        \<in> set (specialCases (assess_relationship corporate_zero permanent_establishment))
   \<and> \<not> assess_permanent_establishment permanent_establishment corporate_zero
   \<and> ''Permanent Establishment relationship''
        \<notin> set (specialCases (assess_relationship permanent_establishment corporate_zero))"
proof -
  have a: "party_type corporate_zero = Some ''CORPORATE''"
    "party_type permanent_establishment = Some ''PERMANENT_ESTABLISHMENT''"
    by code_simp+
  from permanent_establishment_rule_directional [of corporate_zero permanent_establishment]
    permanent_establishment_rule_directional [of permanent_establishment corporate_zero] a
  show ?thesis by simp
qed

text \<open>
  Claim C10. The special-entity predicates compare the type as given while the dispatch
  compares it in upper case. For every pair whose first type is the lowercase string
  \<^verbatim>\<open>corporate\<close> and whose second type is the lowercase string
  \<^verbatim>\<open>permanent_establishment\<close>, the types normalize to \<^verbatim>\<open>CORPORATE\<close> and
  \<^verbatim>\<open>PERMANENT_ESTABLISHMENT\<close>, so that no branch of the dispatch matches, yet the
  permanent-establishment predicate does not fire: when neither company type is
  \<^verbatim>\<open>Partnership\<close>, \<^verbatim>\<open>Trust\<close> or \<^verbatim>\<open>Foundation\<close>, the result is not a
  related party and has no special cases.
\<close>

theorem lowercase_types_miss_permanent_establishment:
  assumes "party_type p1 = Some ''corporate''"
    and "party_type p2 = Some ''permanent_establishment''"
    and "companyType p1 \<notin> set special_company_types"
    and "companyType p2 \<notin> set special_company_types"
  shows "normalized_type p1 = ''CORPORATE'' \<and> normalized_type p2 = ''PERMANENT_ESTABLISHMENT''
         \<and> \<not> dispatch_matches p1 p2
         \<and> relationship_tests p1 p2 initial_result = initial_result
         \<and> \<not> assess_permanent_establishment p1 p2
         \<and> isRelatedParty (assess_relationship p1 p2) = False
         \<and> specialCases (assess_relationship p1 p2) = []"
proof -
  have n: "normalized_type p1 = ''CORPORATE''" "normalized_type p2 = ''PERMANENT_ESTABLISHMENT''"
    using assms(1,2) by (simp_all add: normalized_type_def get_or_def upper_literals)
  have d: "\<not> dispatch_matches p1 p2"
    by (simp add: dispatch_matches_def n)
  have pe: "\<not> assess_permanent_establishment p1 p2"
    using assms(1) by (simp add: assess_permanent_establishment_def)
  have sp: "\<not> assess_partnership p1 p2" "\<not> assess_trust_foundation p1 p2"
    using assms(3,4)
    by (auto simp: assess_partnership_def assess_trust_foundation_def special_company_types_def)
  show ?thesis
    by (simp add: n d pe sp assess_relationship_sel relationship_tests_fallback [OF d]
        initial_result_sel)
qed

text \<open>
  The theorem at a lowercase corporate party holding 60 percent and a lowercase permanent
  establishment.
\<close>

theorem lowercase_types_miss_permanent_establishment_witness:
  "party_type lowercase_corporate = Some ''corporate''
   \<and> party_type lowercase_permanent_establishment = Some ''permanent_establishment''
   \<and> companyType lowercase_corporate \<notin> set special_company_types
   \<and> companyType lowercase_permanent_establishment \<notin> set special_company_types
   \<and> isRelatedParty (assess_relationship lowercase_corporate lowercase_permanent_establishment) = False
   \<and> specialCases (assess_relationship lowercase_corporate lowercase_permanent_establishment) = []"
proof -
  have a: "party_type lowercase_corporate = Some ''corporate''" by code_simp
  have b: "party_type lowercase_permanent_establishment = Some ''permanent_establishment''"
    by code_simp
  have c: "companyType lowercase_corporate \<notin> set special_company_types" by code_simp
  have d: "companyType lowercase_permanent_establishment \<notin> set special_company_types"
    by code_simp
  from lowercase_types_miss_permanent_establishment [OF a b c d] a b c d
  show ?thesis by simp
qed

subsection \<open>Individual pairs\<close>

text \<open>
  Claim C3, as amended. For every pair of parties whose types both normalize to
  \<^verbatim>\<open>INDIVIDUAL\<close>: if party 1's relationship label is one of the labels listed for a
  degree \<open>d\<close> of the kinship table, then \<open>d\<close> is between 1 and 4, the result is a
  related party, and its basis list is the one string naming that degree. If the label is
  in none of the lists, the degree is the sentinel 999, which exceeds the maximum family
  degree 4: the family test contributes nothing, the basis list is empty, and the result
  is a related party only when the partnership or the trust/foundation rule fires.
\<close>

theorem individual_pair_family_relation:
  assumes "normalized_type p1 = ''INDIVIDUAL''" and "normalized_type p2 = ''INDIVIDUAL''"
  shows "((d, labels) \<in> set family_degrees \<and> relationship_label p1 \<in> set labels
          \<longrightarrow> 1 \<le> d \<and> d \<le> 4 \<and> isRelatedParty (assess_relationship p1 p2)
              \<and> basis (assess_relationship p1 p2)
                  = [''Family relationship - '' @ str_int d @ '' degree''])
         \<and> (\<not> recognized_label (relationship_label p1)
          \<longrightarrow> calculate_degree (relationship_label p1) = 999
              \<and> MAX_FAMILY_DEGREE CONFIG < calculate_degree (relationship_label p1)
              \<and> basis (assess_relationship p1 p2) = []
              \<and> (isRelatedParty (assess_relationship p1 p2)
                 \<longleftrightarrow> assess_partnership p1 p2 \<or> assess_trust_foundation p1 p2))"
proof (intro conjI impI)
  assume h: "(d, labels) \<in> set family_degrees \<and> relationship_label p1 \<in> set labels"
  then have deg: "calculate_degree (relationship_label p1) = d \<and> 1 \<le> d \<and> d \<le> 4"
    using calculate_degree_recognized [of d labels "relationship_label p1"] by simp
  then show "1 \<le> d" and "d \<le> 4" by simp_all
  from deg show "isRelatedParty (assess_relationship p1 p2)"
    by (simp add: individual_pair_no_special_type [OF assms(1)]
        relationship_tests_individual [OF assms])
  from deg show "basis (assess_relationship p1 p2)
                   = [''Family relationship - '' @ str_int d @ '' degree'']"
    by (simp add: assess_relationship_sel relationship_tests_individual [OF assms]
        initial_result_sel)
next
  assume h: "\<not> recognized_label (relationship_label p1)"
  then have deg: "calculate_degree (relationship_label p1) = 999"
    by (rule calculate_degree_unrecognized)
  then show "calculate_degree (relationship_label p1) = 999" .
  from deg show "MAX_FAMILY_DEGREE CONFIG < calculate_degree (relationship_label p1)"
    by (simp add: CONFIG_def)
  from deg show "basis (assess_relationship p1 p2) = []"
    by (simp add: assess_relationship_sel relationship_tests_individual [OF assms]
        initial_result_sel)
  from deg show "isRelatedParty (assess_relationship p1 p2)
                   \<longleftrightarrow> assess_partnership p1 p2 \<or> assess_trust_foundation p1 p2"
    by (simp add: individual_pair_no_special_type [OF assms(1)]
        relationship_tests_individual [OF assms] initial_result_sel)
qed

text \<open>
  The theorem at a sibling (degree 2) and at a person with the unrecognized label
  \<^verbatim>\<open>friend\<close>.
\<close>

theorem individual_pair_family_relation_witness:
  "normalized_type sibling_individual = ''INDIVIDUAL''
   \<and> normalized_type friend_individual = ''INDIVIDUAL''
   \<and> normalized_type individual_blank = ''INDIVIDUAL''
   \<and> (2, [''grandparent'', ''grandchild'', ''sibling'', ''spouse_sibling'']) \<in> set family_degrees
   \<and> relationship_label sibling_individual = ''sibling''
   \<and> isRelatedParty (assess_relationship sibling_individual individual_blank)
   \<and> basis (assess_relationship sibling_individual individual_blank)
       = [''Family relationship - 2 degree'']
   \<and> \<not> recognized_label (relationship_label friend_individual)
   \<and> isRelatedParty (assess_relationship friend_individual individual_blank) = False
   \<and> basis (assess_relationship friend_individual individual_blank) = []"
proof -
  have t: "normalized_type sibling_individual = ''INDIVIDUAL''"
    "normalized_type friend_individual = ''INDIVIDUAL''"
    "normalized_type individual_blank = ''INDIVIDUAL''"
    by code_simp+
  have m: "(2, [''grandparent'', ''grandchild'', ''sibling'', ''spouse_sibling''])
             \<in> set family_degrees"
    by (simp add: family_degrees_def)
  have l: "relationship_label sibling_individual = ''sibling''" by code_simp
  have s: "str_int 2 = ''2''" by code_simp
  have u: "\<not> recognized_label (relationship_label friend_individual)" by code_simp
  have sp: "\<not> assess_partnership friend_individual individual_blank"
    "\<not> assess_trust_foundation friend_individual individual_blank"
    by code_simp+
  from individual_pair_family_relation [OF t(1) t(3), of 2
      "[''grandparent'', ''grandchild'', ''sibling'', ''spouse_sibling'']"]
    individual_pair_family_relation [OF t(2) t(3), of 2
      "[''grandparent'', ''grandchild'', ''sibling'', ''spouse_sibling'']"]
    t m l s u sp
  show ?thesis by simp
qed

text \<open>
  Claim C3 as stated fails: an individual with the unrecognized label \<^verbatim>\<open>friend\<close>
  and the company type \<^verbatim>\<open>Trust\<close> is a related party of any other individual.
\<close>

theorem unrecognized_label_related_counterexample:
  "normalized_type friend_trust_individual = ''INDIVIDUAL''
   \<and> normalized_type individual_blank = ''INDIVIDUAL''
   \<and> relationship_label friend_trust_individual = ''friend''
   \<and> \<not> recognized_label ''friend''
   \<and> calculate_degree ''friend'' = 999
   \<and> isRelatedParty (assess_relationship friend_trust_individual individual_blank)"
  by code_simp

text \<open>
  Claim C6. For every pair of individual parties the family test reads the relationship
  label of party 1 only: changing party 2's label changes neither the related-party flag
  nor the basis list, and two runs of the family analyzer whose first parties carry the
  same label return the same record. The test is directional: a sibling assessed against
  a person without a label is a related party, the same two parties in the other order
  are not.
\<close>

theorem family_test_reads_party1_label_only:
  assumes "normalized_type p1 = ''INDIVIDUAL''" and "normalized_type p2 = ''INDIVIDUAL''"
  shows "isRelatedParty (assess_relationship p1 (p2\<lparr>relationship_type := r\<rparr>))
           = isRelatedParty (assess_relationship p1 p2)
         \<and> basis (assess_relationship p1 (p2\<lparr>relationship_type := r\<rparr>))
           = basis (assess_relationship p1 p2)
         \<and> (relationship_label q1 = relationship_label p1
            \<longrightarrow> family_assess_relationship q1 q2 = family_assess_relationship p1 p2)
         \<and> normalized_type sibling_individual = ''INDIVIDUAL''
         \<and> normalized_type individual_blank = ''INDIVIDUAL''
         \<and> isRelatedParty (assess_relationship sibling_individual individual_blank)
         \<and> \<not> isRelatedParty (assess_relationship individual_blank sibling_individual)"
proof -
  have swap: "normalized_type sibling_individual = ''INDIVIDUAL''"
    "normalized_type individual_blank = ''INDIVIDUAL''"
    "isRelatedParty (assess_relationship sibling_individual individual_blank)"
    "\<not> isRelatedParty (assess_relationship individual_blank sibling_individual)"
    by code_simp+
  have fam: "relationship_label q1 = relationship_label p1
             \<longrightarrow> family_assess_relationship q1 q2 = family_assess_relationship p1 p2"
    by (simp add: family_assess_relationship_def relationship_label_def Let_def)
  show ?thesis
    by (simp add: assess_relationship_update_label swap fam)
qed

text \<open>
  The theorem at two individuals without a label, the second of which is then given the
  label \<^verbatim>\<open>parent\<close> (the pair stays unrelated), and at two runs of the family
  analyzer whose first parties are both siblings.
\<close>

theorem family_test_reads_party1_label_only_witness:
  "normalized_type individual_blank = ''INDIVIDUAL''
   \<and> relationship_label sibling_individual = relationship_label (sibling_individual\<lparr>isDirector := Some True\<rparr>)
   \<and> isRelatedParty (assess_relationship individual_blank
        (individual_blank\<lparr>relationship_type := Some ''parent''\<rparr>)) = False
   \<and> basis (assess_relationship individual_blank
        (individual_blank\<lparr>relationship_type := Some ''parent''\<rparr>)) = []
   \<and> family_assess_relationship (sibling_individual\<lparr>isDirector := Some True\<rparr>) friend_individual
       = family_assess_relationship sibling_individual individual_blank"
proof -
  have t: "normalized_type individual_blank = ''INDIVIDUAL''" by code_simp
  have l: "relationship_label (sibling_individual\<lparr>isDirector := Some True\<rparr>)
             = relationship_label sibling_individual"
    by (simp add: relationship_label_def)
  have v: "isRelatedParty (assess_relationship individual_blank individual_blank) = False"
    "basis (assess_relationship individual_blank individual_blank) = []"
    by code_simp+
  from family_test_reads_party1_label_only [OF t t, of "Some ''parent''"
      "sibling_individual\<lparr>isDirector := Some True\<rparr>" friend_individual]
  have a: "isRelatedParty (assess_relationship individual_blank
              (individual_blank\<lparr>relationship_type := Some ''parent''\<rparr>)) = False"
    "basis (assess_relationship individual_blank
              (individual_blank\<lparr>relationship_type := Some ''parent''\<rparr>)) = []"
    by (simp_all add: v)
  have t': "normalized_type sibling_individual = ''INDIVIDUAL''" by code_simp
  from family_test_reads_party1_label_only [OF t' t, of "Some ''parent''"
      "sibling_individual\<lparr>isDirector := Some True\<rparr>" friend_individual] l
  have b: "family_assess_relationship (sibling_individual\<lparr>isDirector := Some True\<rparr>) friend_individual
             = family_assess_relationship sibling_individual individual_blank"
    by simp
  from t l a b show ?thesis by simp
qed

subsection \<open>Mixed pairs\<close>

text \<open>
  Claim C5, as amended. For every Individual/Corporate or Corporate/Individual pair in
  which the individual side carries none of the ownership, voting rights, profit
  entitlement and management control fields, the branch merges the corporate analyzer's
  result on the pair as given and then the connected-person result. The individual
  side's absent fields count as 0 and contribute nothing, but the corporate side's own
  figures are tested: the corporate analyzer reports a related party exactly when the
  corporate side's total ownership, voting rights, profit entitlement or management
  control is at least 50. Then it sets the related-party flag and appends at least one
  basis string; otherwise its merge leaves the result as it was.
\<close>

theorem mixed_pair_corporate_analyzer:
  assumes "mixed_pair p1 p2" and "lacks_corporate_fields (individual_side p1 p2)"
  shows "relationship_tests p1 p2 res
           = merge_connected (assess_connection (individual_side p1 p2) (corporate_side p1 p2))
               (merge_corporate (corporate_assess_relationship p1 p2) res)
         \<and> (corporate_isRelatedParty (corporate_assess_relationship p1 p2)
            \<longleftrightarrow> entity_thresholds_met (corporate_side p1 p2))
         \<and> (\<not> entity_thresholds_met (corporate_side p1 p2)
            \<longrightarrow> merge_corporate (corporate_assess_relationship p1 p2) res = res)
         \<and> (entity_thresholds_met (corporate_side p1 p2)
            \<longrightarrow> isRelatedParty (merge_corporate (corporate_assess_relationship p1 p2) res)
                \<and> basis (merge_corporate (corporate_assess_relationship p1 p2) res)
                    = basis res @ related_bases p1 p2
                \<and> related_bases p1 p2 \<noteq> []
                \<and> isRelatedParty (assess_relationship p1 p2))"
proof -
  have ind: "\<not> entity_thresholds_met (individual_side p1 p2)"
    using assms(2) by (rule lacks_corporate_fields_thresholds)
  have met: "corporate_thresholds_met p1 p2 \<longleftrightarrow> entity_thresholds_met (corporate_side p1 p2)"
    using assms(1) ind
    by (auto simp: corporate_thresholds_met_def mixed_pair_def individual_side_def
        corporate_side_def)
  have rt: "relationship_tests p1 p2 r
           = merge_connected (assess_connection (individual_side p1 p2) (corporate_side p1 p2))
               (merge_corporate (corporate_assess_relationship p1 p2) r)" for r
    using assms(1) by (rule relationship_tests_mixed)
  have rel: "entity_thresholds_met (corporate_side p1 p2)
             \<Longrightarrow> isRelatedParty (assess_relationship p1 p2)"
    by (simp add: assess_relationship_sel rt merge_connected_sel merge_corporate_sel met)
  have nonempty: "entity_thresholds_met (corporate_side p1 p2) \<Longrightarrow> related_bases p1 p2 \<noteq> []"
    by (simp add: related_bases_empty_iff met)
  show ?thesis
    using rel nonempty
    by (simp add: rt corporate_isRelatedParty_iff merge_corporate_eq met)
qed

text \<open>
  The theorem at an individual without a label paired with a corporate party holding 60
  percent, and at the same individual paired with a corporate party whose figures are
  all zero.
\<close>

theorem mixed_pair_corporate_analyzer_witness:
  "mixed_pair individual_blank majority_corporate
   \<and> lacks_corporate_fields (individual_side individual_blank majority_corporate)
   \<and> entity_thresholds_met (corporate_side individual_blank majority_corporate)
   \<and> isRelatedParty (assess_relationship individual_blank majority_corporate)
   \<and> basis (merge_corporate (corporate_assess_relationship individual_blank majority_corporate)
        initial_result) = [''Ownership >= 50%'']
   \<and> mixed_pair corporate_zero individual_blank
   \<and> lacks_corporate_fields (individual_side corporate_zero individual_blank)
   \<and> \<not> entity_thresholds_met (corporate_side corporate_zero individual_blank)
   \<and> merge_corporate (corporate_assess_relationship corporate_zero individual_blank)
        initial_result = initial_result"
proof -
  have a: "mixed_pair individual_blank majority_corporate"
    "lacks_corporate_fields (individual_side individual_blank majority_corporate)"
    "entity_thresholds_met (corporate_side individual_blank majority_corporate)"
    by code_simp+
  have b: "mixed_pair corporate_zero individual_blank"
    "lacks_corporate_fields (individual_side corporate_zero individual_blank)"
    "\<not> entity_thresholds_met (corporate_side corporate_zero individual_blank)"
    by code_simp+
  have c: "related_bases individual_blank majority_corporate = [''Ownership >= 50%'']"
    "basis initial_result = []"
    by code_simp+
  from mixed_pair_corporate_analyzer [OF a(1) a(2), of initial_result]
    mixed_pair_corporate_analyzer [OF b(1) b(2), of initial_result] a b c
  show ?thesis by simp
qed

text \<open>
  Claim C5 as stated fails: for an individual paired with a corporate party holding 60
  percent direct ownership, the corporate analyzer reports a related party, and the
  assessment returns the related-party flag with the ownership basis string, although no
  special-entity rule fires and the individual is not a connected person.
\<close>

theorem mixed_pair_corporate_related_counterexample:
  "normalized_type individual_blank = ''INDIVIDUAL''
   \<and> normalized_type majority_corporate = ''CORPORATE''
   \<and> lacks_corporate_fields individual_blank
   \<and> corporate_isRelatedParty (corporate_assess_relationship individual_blank majority_corporate)
   \<and> isRelatedParty (assess_relationship individual_blank majority_corporate)
   \<and> basis (assess_relationship individual_blank majority_corporate) = [''Ownership >= 50%'']
   \<and> specialCases (assess_relationship individual_blank majority_corporate) = []
   \<and> isConnectedPerson (assess_relationship individual_blank majority_corporate) = False"
  by code_simp

subsection \<open>Pairs outside the dispatch\<close>




end
